theory Spec2Isabelle
  imports Complex_Main
begin

section \<open>Values of the page and the platform it runs on\<close>

text \<open>
  The page keeps nine pieces of state, each in its own \<^verbatim>\<open>useSafeLocalStorage\<close> hook.
  A state cell is typed in the source (\<^verbatim>\<open>number\<close>, \<^verbatim>\<open>string\<close>, a union of string
  literals), but the hook fills it with \<^verbatim>\<open>JSON.parse(raw) as T\<close>, an unchecked cast, so
  at run time a cell can hold any JSON value. A number is identified with the decimal
  it denotes: the page stores and compares numbers and never computes with them.
\<close>

datatype jsval =
    JNull
  | JBool bool
  | JNum real
  | JStr string
  | JArr "jsval list"
  | JObj "(string \<times> jsval) list"

datatype js_error =
  SecurityError | QuotaExceededError | SyntaxError | TypeError | InvalidChildError

text \<open>
  The built-ins of the language that the page calls are parameters of the model:
  \<^verbatim>\<open>JSON.parse\<close> (\<open>None\<close> when it throws a SyntaxError), \<^verbatim>\<open>JSON.stringify\<close> and the
  conversion of a number to a string.
\<close>

record platform =
  JSON_parse :: "string \<Rightarrow> jsval option"
  JSON_stringify :: "jsval \<Rightarrow> string"
  Number_toString :: "real \<Rightarrow> string"

fun join_comma :: "string list \<Rightarrow> string" where
  "join_comma [] = []"
| "join_comma [x] = x"
| "join_comma (x # y # zs) = x @ '','' @ join_comma (y # zs)"

text \<open>
  \<^verbatim>\<open>String(v)\<close> and the interpolation \<^verbatim>\<open>`${v}`\<close> of a value that came out of
  \<^verbatim>\<open>JSON.parse\<close>: an array is its elements joined by commas, with null elements
  left empty.
\<close>

fun ToString :: "(real \<Rightarrow> string) \<Rightarrow> jsval \<Rightarrow> string" where
  "ToString nts JNull = ''null''"
| "ToString nts (JBool b) = (if b then ''true'' else ''false'')"
| "ToString nts (JNum r) = nts r"
| "ToString nts (JStr s) = s"
| "ToString nts (JArr xs) =
     join_comma (map (\<lambda>x. if x = JNull then [] else ToString nts x) xs)"
| "ToString nts (JObj kvs) = ''[object Object]''"

text \<open>
  \<^verbatim>\<open>window.localStorage\<close>: the stored items, and which calls throw. Reading can throw
  when access to storage is denied, writing also when the quota is exceeded.
  \<open>window_defined\<close> is the test \<^verbatim>\<open>typeof window !== 'undefined'\<close>.
\<close>

record browser =
  window_defined :: bool
  items :: "string \<rightharpoonup> string"
  getItem_throws :: "string \<Rightarrow> bool"
  setItem_throws :: "string \<Rightarrow> string \<Rightarrow> bool"

definition getItem :: "browser \<Rightarrow> string \<Rightarrow> js_error + string option" where
  "getItem b key =
     (if getItem_throws b key then Inl SecurityError else Inr (items b key))"

definition setItem :: "browser \<Rightarrow> string \<Rightarrow> string \<Rightarrow> js_error + browser" where
  "setItem b key v =
     (if setItem_throws b key v then Inl QuotaExceededError
      else Inr (b\<lparr>items := (items b)(key \<mapsto> v)\<rparr>))"

section \<open>The hook \<^verbatim>\<open>useSafeLocalStorage\<close>\<close>

text \<open>
  The first effect of the hook. \<open>hydrate_try\<close> is the body of its \<^verbatim>\<open>try\<close>: the value of
  the state cell after it, or the error it throws. \<open>hydrate_effect\<close> adds the
  \<^verbatim>\<open>catch { /* ignore */ }\<close>.
\<close>

definition hydrate_try :: "platform \<Rightarrow> browser \<Rightarrow> string \<Rightarrow> jsval \<Rightarrow> js_error + jsval" where
  "hydrate_try P b key value =
     (case (if window_defined b then getItem b key else Inr None) of
        Inl e \<Rightarrow> Inl e
      | Inr None \<Rightarrow> Inr value
      | Inr (Some raw) \<Rightarrow>
          (case JSON_parse P raw of
             None \<Rightarrow> Inl SyntaxError
           | Some v \<Rightarrow> Inr v))"

definition hydrate_effect :: "platform \<Rightarrow> browser \<Rightarrow> string \<Rightarrow> jsval \<Rightarrow> jsval" where
  "hydrate_effect P b key value =
     (case hydrate_try P b key value of Inl e \<Rightarrow> value | Inr v \<Rightarrow> v)"

text \<open>
  The second effect of the hook, which runs after every render in which \<^verbatim>\<open>value\<close>
  changed (and after the first one).
\<close>

definition persist_try :: "platform \<Rightarrow> browser \<Rightarrow> string \<Rightarrow> jsval \<Rightarrow> js_error + browser" where
  "persist_try P b key value =
     (if window_defined b then setItem b key (JSON_stringify P value) else Inr b)"

definition persist_effect :: "platform \<Rightarrow> browser \<Rightarrow> string \<Rightarrow> jsval \<Rightarrow> browser" where
  "persist_effect P b key value =
     (case persist_try P b key value of Inl e \<Rightarrow> b | Inr b' \<Rightarrow> b')"

section \<open>The page\<close>

datatype pref_key =
    Theme | FontFamily | FontSize | LineHeight | LetterSpacing
  | WordSpacing | MaxWidthCh | ParaSpacingEm | InputText

text \<open>The hooks in the order in which \<^verbatim>\<open>Page\<close> calls them.\<close>

definition pref_keys :: "pref_key list" where
  "pref_keys = [Theme, FontFamily, FontSize, LineHeight, LetterSpacing,
                WordSpacing, MaxWidthCh, ParaSpacingEm, InputText]"

fun storage_key :: "pref_key \<Rightarrow> string" where
  "storage_key Theme = ''readable:theme''"
| "storage_key FontFamily = ''readable:font''"
| "storage_key FontSize = ''readable:fontSize''"
| "storage_key LineHeight = ''readable:lineHeight''"
| "storage_key LetterSpacing = ''readable:letterSpacing''"
| "storage_key WordSpacing = ''readable:wordSpacing''"
| "storage_key MaxWidthCh = ''readable:maxWidth''"
| "storage_key ParaSpacingEm = ''readable:paraSpacing''"
| "storage_key InputText = ''readable:text''"

fun initialValue :: "pref_key \<Rightarrow> jsval" where
  "initialValue Theme = JStr ''light''"
| "initialValue FontFamily = JStr ''system''"
| "initialValue FontSize = JNum 18"
| "initialValue LineHeight = JNum 1.65"
| "initialValue LetterSpacing = JNum 0"
| "initialValue WordSpacing = JNum 0"
| "initialValue MaxWidthCh = JNum 68"
| "initialValue ParaSpacingEm = JNum 0.75"
| "initialValue InputText = JStr []"

type_synonym snapshot = "pref_key \<Rightarrow> jsval"
type_synonym world = "snapshot \<times> browser"

definition get :: "world \<Rightarrow> pref_key \<Rightarrow> jsval" where
  "get w k = fst w k"

definition setValue :: "pref_key \<Rightarrow> jsval \<Rightarrow> snapshot \<Rightarrow> snapshot" where
  "setValue k v s = s(k := v)"

text \<open>
  After a render the persist effect of every hook whose value changed runs, in the
  order of the hooks.
\<close>

definition rerender_effects :: "platform \<Rightarrow> snapshot \<Rightarrow> snapshot \<Rightarrow> browser \<Rightarrow> browser" where
  "rerender_effects P old new b =
     fold (\<lambda>k b. if new k \<noteq> old k then persist_effect P b (storage_key k) (new k) else b)
       pref_keys b"

text \<open>
  A setter called from an event handler: the state changes, then the page renders. A
  setter called with the value the hook already holds causes no render. The handlers
  of the page pass numbers and strings, which are equal in the language exactly when
  they are equal here. They run on a live page and pass a value of the type of the
  hook, for which the render returns.
\<close>

definition set_pref :: "platform \<Rightarrow> pref_key \<Rightarrow> jsval \<Rightarrow> world \<Rightarrow> world" where
  "set_pref P k v w =
     (let s' = setValue k v (fst w) in (s', rerender_effects P (fst w) s' (snd w)))"

text \<open>
  Hydration of one key, and of all of them, against one state of the storage.
\<close>

definition hydrate_key :: "platform \<Rightarrow> browser \<Rightarrow> pref_key \<Rightarrow> snapshot \<Rightarrow> snapshot" where
  "hydrate_key P b k s = s(k := hydrate_effect P b (storage_key k) (s k))"

definition hydrate :: "platform \<Rightarrow> browser \<Rightarrow> snapshot \<Rightarrow> snapshot" where
  "hydrate P b s = fold (hydrate_key P b) pref_keys s"

text \<open>
  Rendering the page evaluates the expressions of its markup on the snapshot, and some
  of them throw on a value that is not of the type its hook declares:
  \<^item> \<^verbatim>\<open>lineHeight.toFixed(2)\<close>, and the same call on \<^verbatim>\<open>letterSpacing\<close> and
    \<^verbatim>\<open>paraSpacingEm\<close>, throws a TypeError on anything but a number;
  \<^item> \<^verbatim>\<open>(inputText || sample).split('\n')\<close> throws a TypeError when \<^verbatim>\<open>inputText\<close> is truthy
    and not a string;
  \<^item> \<^verbatim>\<open>{fontSize}\<close>, \<^verbatim>\<open>{wordSpacing}\<close> and \<^verbatim>\<open>{maxWidthCh}\<close> are children of a label, and an
    object (alone or inside an array) is not a valid child.
  Every other use of a value (an attribute, a form value, a comparison) accepts any
  value. \<open>render\<close> is \<open>Inr ()\<close> when the render returns and the error when it throws.
\<close>

fun is_number :: "jsval \<Rightarrow> bool" where
  "is_number (JNum r) = True"
| "is_number v = False"

fun is_string :: "jsval \<Rightarrow> bool" where
  "is_string (JStr s) = True"
| "is_string v = False"

fun truthy :: "jsval \<Rightarrow> bool" where
  "truthy JNull = False"
| "truthy (JBool b) = b"
| "truthy (JNum r) = (r \<noteq> 0)"
| "truthy (JStr s) = (s \<noteq> [])"
| "truthy (JArr xs) = True"
| "truthy (JObj kvs) = True"

fun valid_child :: "jsval \<Rightarrow> bool" where
  "valid_child (JObj kvs) = False"
| "valid_child (JArr xs) = list_all valid_child xs"
| "valid_child v = True"

definition render :: "snapshot \<Rightarrow> js_error + unit" where
  "render s =
     (if \<not> is_number (s LineHeight) then Inl TypeError
      else if \<not> is_number (s LetterSpacing) then Inl TypeError
      else if \<not> is_number (s ParaSpacingEm) then Inl TypeError
      else if truthy (s InputText) \<and> \<not> is_string (s InputText) then Inl TypeError
      else if \<not> (valid_child (s FontSize) \<and> valid_child (s WordSpacing)
                  \<and> valid_child (s MaxWidthCh)) then Inl InvalidChildError
      else Inr ())"

text \<open>
  Mounting the page. The first render shows the initial values; then, hook by hook,
  the hydrate effect reads the storage and the persist effect writes the value of the
  first render, which is still the initial one. The render that follows takes the
  hydrated values (when no value changed there is none, and the first one stands).
  If it returns, the persist effects of the changed hooks run and the page is live
  with the hydrated snapshot. If it throws, nothing catches the error: the page is
  unmounted, its state is gone, and the storage stays as the first effects left it.
  The result is \<open>Inr\<close> of the live page, or \<open>Inl\<close> of the error and the storage.
\<close>

definition mount_effects :: "platform \<Rightarrow> pref_key \<Rightarrow> world \<Rightarrow> world" where
  "mount_effects P k w =
     ((fst w)(k := hydrate_effect P (snd w) (storage_key k) (initialValue k)),
      persist_effect P (snd w) (storage_key k) (initialValue k))"

definition mount :: "platform \<Rightarrow> browser \<Rightarrow> js_error \<times> browser + world" where
  "mount P b =
     (case render initialValue of
        Inl e \<Rightarrow> Inl (e, b)
      | Inr u \<Rightarrow>
          (let w1 = fold (mount_effects P) pref_keys (initialValue, b)
           in case render (fst w1) of
                Inl e \<Rightarrow> Inl (e, snd w1)
              | Inr u' \<Rightarrow> Inr (fst w1, rerender_effects P initialValue (fst w1) (snd w1))))"

section \<open>The ranges of the controls\<close>

text \<open>The \<^verbatim>\<open>min\<close> and \<^verbatim>\<open>max\<close> of the range input bound to each numeric key.\<close>

fun domain_of :: "pref_key \<Rightarrow> (real \<times> real) option" where
  "domain_of FontSize = Some (14, 26)"
| "domain_of LineHeight = Some (1.2, 2.0)"
| "domain_of LetterSpacing = Some (- 0.02, 0.1)"
| "domain_of WordSpacing = Some (0, 6)"
| "domain_of MaxWidthCh = Some (50, 85)"
| "domain_of ParaSpacingEm = Some (0.4, 1.4)"
| "domain_of k = None"

text \<open>
  Clamping as the specification words it: a number outside the range of its key goes
  to the nearest bound. This follows the specification, not the source, which has no
  such function.
\<close>

definition spec_clamp :: "pref_key \<Rightarrow> jsval \<Rightarrow> jsval" where
  "spec_clamp k v =
     (case domain_of k of
        None \<Rightarrow> v
      | Some (lo, hi) \<Rightarrow> (case v of JNum r \<Rightarrow> JNum (max lo (min hi r)) | _ \<Rightarrow> v))"

fun in_domain :: "pref_key \<Rightarrow> jsval \<Rightarrow> bool" where
  "in_domain Theme v = (v \<in> {JStr ''light'', JStr ''dark'', JStr ''high-contrast''})"
| "in_domain FontFamily v = (v \<in> {JStr ''system'', JStr ''atkinson''})"
| "in_domain InputText v = (case v of JStr s \<Rightarrow> True | _ \<Rightarrow> False)"
| "in_domain k v =
     (case (domain_of k, v) of
        (Some (lo, hi), JNum r) \<Rightarrow> lo \<le> r \<and> r \<le> hi
      | _ \<Rightarrow> False)"

section \<open>Presets\<close>

datatype Preset = Default | Reader | Dyslexia_friendly | Large_print

text \<open>The setter calls of each entry of \<^verbatim>\<open>presets\<close>, in the order of the source.\<close>

fun preset_calls :: "Preset \<Rightarrow> (pref_key \<times> jsval) list" where
  "preset_calls Default =
     [(FontFamily, JStr ''system''), (FontSize, JNum 18), (LineHeight, JNum 1.65),
      (LetterSpacing, JNum 0), (WordSpacing, JNum 0), (MaxWidthCh, JNum 68),
      (ParaSpacingEm, JNum 0.75), (Theme, JStr ''light'')]"
| "preset_calls Reader =
     [(FontFamily, JStr ''system''), (FontSize, JNum 19), (LineHeight, JNum 1.7),
      (LetterSpacing, JNum 0.005), (WordSpacing, JNum 1), (MaxWidthCh, JNum 65),
      (ParaSpacingEm, JNum 0.9), (Theme, JStr ''light'')]"
| "preset_calls Dyslexia_friendly =
     [(FontFamily, JStr ''atkinson''), (FontSize, JNum 20), (LineHeight, JNum 1.8),
      (LetterSpacing, JNum 0.02), (WordSpacing, JNum 2), (MaxWidthCh, JNum 60),
      (ParaSpacingEm, JNum 1.0), (Theme, JStr ''light'')]"
| "preset_calls Large_print =
     [(FontFamily, JStr ''system''), (FontSize, JNum 22), (LineHeight, JNum 1.9),
      (LetterSpacing, JNum 0.01), (WordSpacing, JNum 1), (MaxWidthCh, JNum 58),
      (ParaSpacingEm, JNum 1.1), (Theme, JStr ''high-contrast'')]"

definition presets :: "Preset \<Rightarrow> snapshot \<Rightarrow> snapshot" where
  "presets p s = fold (\<lambda>(k, v). setValue k v) (preset_calls p) s"

text \<open>
  A preset button: \<^verbatim>\<open>onClick={() => presets[name]()}\<close> with \<^verbatim>\<open>name: Preset\<close>. The
  eight setters run in one event handler, the page renders once, and the persist
  effects of the changed hooks follow.
\<close>

definition apply_preset :: "platform \<Rightarrow> Preset \<Rightarrow> world \<Rightarrow> world" where
  "apply_preset P p w =
     (let s' = presets p (fst w) in (s', rerender_effects P (fst w) s' (snd w)))"

text \<open>
  The same expression at run time, where the types are erased and \<^verbatim>\<open>name\<close> is any
  string. \<^verbatim>\<open>presets\<close> is an object literal: \<^verbatim>\<open>presets[name]\<close> finds its four own
  properties and, for any other name, the members that every object inherits from
  \<^verbatim>\<open>Object.prototype\<close>; a name that is neither gives \<^verbatim>\<open>undefined\<close>, and calling
  that throws a TypeError.
\<close>

fun preset_of_name :: "string \<Rightarrow> Preset option" where
  "preset_of_name name =
     (if name = ''Default'' then Some Default
      else if name = ''Reader'' then Some Reader
      else if name = ''Dyslexia-friendly'' then Some Dyslexia_friendly
      else if name = ''Large print'' then Some Large_print
      else None)"

text \<open>
  The members of \<^verbatim>\<open>Object.prototype\<close>: \<open>Some True\<close> when a call without arguments
  returns (and changes nothing), \<open>Some False\<close> when it throws a TypeError.
\<close>

definition Object_prototype_call :: "string \<Rightarrow> bool option" where
  "Object_prototype_call name =
     (if name \<in> {''constructor'', ''hasOwnProperty'', ''isPrototypeOf'',
                  ''propertyIsEnumerable'', ''toString'', ''toLocaleString'', ''valueOf'',
                  ''__lookupGetter__'', ''__lookupSetter__''} then Some True
      else if name \<in> {''__proto__'', ''__defineGetter__'', ''__defineSetter__''}
      then Some False
      else None)"

text \<open>The names of the preset buttons, in the order in which the page lists them.\<close>

definition preset_names :: "string list" where
  "preset_names = [''Default'', ''Reader'', ''Dyslexia-friendly'', ''Large print'']"

definition apply_name :: "platform \<Rightarrow> string \<Rightarrow> world \<Rightarrow> js_error + world" where
  "apply_name P name w =
     (case preset_of_name name of
        Some p \<Rightarrow> Inr (apply_preset P p w)
      | None \<Rightarrow>
          (case Object_prototype_call name of
             Some True \<Rightarrow> Inr w
           | Some False \<Rightarrow> Inl TypeError
           | None \<Rightarrow> Inl TypeError))"

section \<open>Projection to the document\<close>

text \<open>
  The root element of the document: its attributes and the properties of its inline
  style. \<^verbatim>\<open>setProperty\<close> with an empty value removes the property.
\<close>

record root_element =
  attributes :: "string \<rightharpoonup> string"
  style :: "string \<rightharpoonup> string"

definition setAttribute :: "string \<Rightarrow> string \<Rightarrow> root_element \<Rightarrow> root_element" where
  "setAttribute name v r = r\<lparr>attributes := (attributes r)(name \<mapsto> v)\<rparr>"

definition setProperty :: "string \<Rightarrow> string \<Rightarrow> root_element \<Rightarrow> root_element" where
  "setProperty name v r =
     r\<lparr>style := (if v = [] then (style r)(name := None) else (style r)(name \<mapsto> v))\<rparr>"

definition theme_effect :: "platform \<Rightarrow> snapshot \<Rightarrow> root_element \<Rightarrow> root_element" where
  "theme_effect P s r = setAttribute ''data-theme'' (ToString (Number_toString P) (s Theme)) r"

definition style_calls :: "platform \<Rightarrow> snapshot \<Rightarrow> (string \<times> string) list" where
  "style_calls P s =
     [(''--reader-font'',
         if s FontFamily = JStr ''atkinson''
         then ''var(--font-atkinson), var(--font-sans)'' else ''var(--font-sans)''),
      (''--reader-font-size'', ToString (Number_toString P) (s FontSize) @ ''px''),
      (''--reader-line-height'', ToString (Number_toString P) (s LineHeight)),
      (''--reader-letter-spacing'', ToString (Number_toString P) (s LetterSpacing) @ ''em''),
      (''--reader-word-spacing'', ToString (Number_toString P) (s WordSpacing) @ ''px''),
      (''--reader-max-width'', ToString (Number_toString P) (s MaxWidthCh) @ ''ch''),
      (''--reader-paragraph-spacing'', ToString (Number_toString P) (s ParaSpacingEm) @ ''em'')]"

definition style_effect :: "platform \<Rightarrow> snapshot \<Rightarrow> root_element \<Rightarrow> root_element" where
  "style_effect P s r = fold (\<lambda>(name, v). setProperty name v) (style_calls P s) r"

definition project :: "platform \<Rightarrow> snapshot \<Rightarrow> root_element \<Rightarrow> root_element" where
  "project P s r = style_effect P s (theme_effect P s r)"

text \<open>The custom properties that the style effect writes.\<close>

definition style_names :: "string list" where
  "style_names = [''--reader-font'', ''--reader-font-size'', ''--reader-line-height'',
     ''--reader-letter-spacing'', ''--reader-word-spacing'', ''--reader-max-width'',
     ''--reader-paragraph-spacing'']"

text \<open>A snapshot in which every key holds a value of the type its hook declares.\<close>

definition valid_snapshot :: "snapshot \<Rightarrow> bool" where
  "valid_snapshot s = list_all (\<lambda>k. in_domain k (s k)) pref_keys"

section \<open>A concrete platform\<close>

text \<open>
  To run the model on concrete inputs, the built-ins on a fragment of JSON: numbers
  written in plain decimal notation, strings without characters that need an escape,
  the three literals, and (for writing only) arrays and objects of these. On this
  fragment the functions give what \<^verbatim>\<open>JSON.parse\<close>, \<^verbatim>\<open>JSON.stringify\<close> and the
  conversion of a number to a string give; a text outside it (exponents, escapes,
  white space, arrays, objects) reads as a syntax error here.
\<close>

definition digit_char :: "nat \<Rightarrow> char" where
  "digit_char n = ''0123456789'' ! n"

function show_nat :: "nat \<Rightarrow> string" where
  "show_nat n =
     (if n < 10 then [digit_char n] else show_nat (n div 10) @ [digit_char (n mod 10)])"
  by pat_completeness auto
termination
  by (relation "measure id") auto

fun frac_digits :: "nat \<Rightarrow> real \<Rightarrow> string" where
  "frac_digits 0 f = []"
| "frac_digits (Suc n) f =
     (if f = 0 then []
      else digit_char (nat \<lfloor>f * 10\<rfloor>) # frac_digits n (f * 10 - of_int \<lfloor>f * 10\<rfloor>))"

definition decimal_string :: "real \<Rightarrow> string" where
  "decimal_string r =
     (let a = \<bar>r\<bar>; i = \<lfloor>a\<rfloor>; f = a - of_int i
      in (if r < 0 then ''-'' else []) @ show_nat (nat i)
         @ (if f = 0 then [] else ''.'' @ frac_digits 20 f))"

definition is_digit :: "char \<Rightarrow> bool" where
  "is_digit c = (c \<in> set ''0123456789'')"

definition digit_val :: "char \<Rightarrow> nat" where
  "digit_val c = of_char c - 48"

definition parse_digits :: "string \<Rightarrow> nat option" where
  "parse_digits ds =
     (if ds = [] \<or> \<not> list_all is_digit ds then None
      else Some (fold (\<lambda>c n. 10 * n + digit_val c) ds 0))"

definition parse_int_part :: "string \<Rightarrow> nat option" where
  "parse_int_part ds =
     (if ds = ''0'' then Some 0
      else if ds \<noteq> [] \<and> hd ds \<noteq> CHR ''0'' then parse_digits ds
      else None)"

definition parse_number :: "string \<Rightarrow> real option" where
  "parse_number s =
     (let ip = takeWhile (\<lambda>c. c \<noteq> CHR ''.'') s;
          rest = dropWhile (\<lambda>c. c \<noteq> CHR ''.'') s
      in case parse_int_part ip of
           None \<Rightarrow> None
         | Some i \<Rightarrow>
             (case rest of
                [] \<Rightarrow> Some (of_nat i)
              | dot # fr \<Rightarrow>
                  (case parse_digits fr of
                     None \<Rightarrow> None
                   | Some f \<Rightarrow> Some (of_nat i + of_nat f / 10 ^ length fr))))"

definition plain_char :: "char \<Rightarrow> bool" where
  "plain_char c = (c \<noteq> CHR 0x22 \<and> c \<noteq> CHR 0x5C \<and> (32::nat) \<le> of_char c)"

definition parse_string :: "string \<Rightarrow> jsval option" where
  "parse_string rest =
     (if rest \<noteq> [] \<and> last rest = CHR 0x22 \<and> list_all plain_char (butlast rest)
      then Some (JStr (butlast rest)) else None)"

definition json_parse :: "string \<Rightarrow> jsval option" where
  "json_parse s =
     (if s = ''null'' then Some JNull
      else if s = ''true'' then Some (JBool True)
      else if s = ''false'' then Some (JBool False)
      else case s of
          [] \<Rightarrow> None
        | c # rest \<Rightarrow>
            (if c = CHR 0x22 then parse_string rest
             else if c = CHR ''-'' then map_option (\<lambda>r. JNum (- r)) (parse_number rest)
             else map_option JNum (parse_number s)))"

definition quote :: "string \<Rightarrow> string" where
  "quote s = [CHR 0x22] @ s @ [CHR 0x22]"

fun json_stringify :: "jsval \<Rightarrow> string" where
  "json_stringify JNull = ''null''"
| "json_stringify (JBool b) = (if b then ''true'' else ''false'')"
| "json_stringify (JNum r) = decimal_string r"
| "json_stringify (JStr s) = quote s"
| "json_stringify (JArr xs) = ''['' @ join_comma (map json_stringify xs) @ '']''"
| "json_stringify (JObj kvs) =
     ''{'' @ join_comma (map (\<lambda>(k, v). quote k @ '':'' @ json_stringify v) kvs) @ ''}''"

definition decimal_platform :: platform where
  "decimal_platform =
     \<lparr>JSON_parse = json_parse, JSON_stringify = json_stringify,
      Number_toString = decimal_string\<rparr>"

text \<open>A browser whose storage holds the given items and never throws.\<close>

definition browser_with :: "(string \<times> string) list \<Rightarrow> browser" where
  "browser_with kvs =
     \<lparr>window_defined = True, items = map_of kvs,
      getItem_throws = (\<lambda>key. False), setItem_throws = (\<lambda>key v. False)\<rparr>"

text \<open>The same browser once every write to the storage throws.\<close>

definition quota_exceeded :: "browser \<Rightarrow> browser" where
  "quota_exceeded b = b\<lparr>setItem_throws := (\<lambda>key v. True)\<rparr>"

text \<open>A root element without attributes and without inline style.\<close>

definition empty_root :: root_element where
  "empty_root = \<lparr>attributes = Map.empty, style = Map.empty\<rparr>"

section \<open>Lemmas\<close>

subsection \<open>Keys and storage\<close>

lemma storage_key_inj: "storage_key j = storage_key k \<longleftrightarrow> j = k"
  by (cases j; cases k) simp_all

lemma distinct_pref_keys: "distinct pref_keys"
  by (simp add: pref_keys_def)

lemma set_pref_keys: "k \<in> set pref_keys"
  by (cases k) (simp_all add: pref_keys_def)

lemma persist_effect_static:
  "window_defined (persist_effect P b key v) = window_defined b"
  "getItem_throws (persist_effect P b key v) = getItem_throws b"
  "setItem_throws (persist_effect P b key v) = setItem_throws b"
  by (simp_all add: persist_effect_def persist_try_def setItem_def)

lemma persist_effect_items_other:
  "key' \<noteq> key \<Longrightarrow> items (persist_effect P b key v) key' = items b key'"
  by (simp add: persist_effect_def persist_try_def setItem_def)

lemma persist_effect_getItem_other:
  "key' \<noteq> key \<Longrightarrow> getItem (persist_effect P b key v) key' = getItem b key'"
  by (simp add: getItem_def persist_effect_static persist_effect_items_other)

lemma persist_effect_written:
  "window_defined b \<Longrightarrow> \<not> setItem_throws b key (JSON_stringify P v) \<Longrightarrow>
   persist_effect P b key v = b\<lparr>items := (items b)(key \<mapsto> JSON_stringify P v)\<rparr>"
  by (simp add: persist_effect_def persist_try_def setItem_def)

lemma persist_effect_failed:
  "persist_try P b key v = Inl e \<Longrightarrow> persist_effect P b key v = b"
  by (simp add: persist_effect_def)

subsection \<open>The hydrate effect\<close>

lemma hydrate_effect_cong:
  "window_defined b' = window_defined b \<Longrightarrow> getItem b' key = getItem b key \<Longrightarrow>
   hydrate_effect P b' key v = hydrate_effect P b key v"
  by (simp add: hydrate_effect_def hydrate_try_def)

lemma hydrate_effect_persist_other:
  "key' \<noteq> key \<Longrightarrow>
   hydrate_effect P (persist_effect P b key v) key' u = hydrate_effect P b key' u"
  by (rule hydrate_effect_cong)
     (simp_all add: persist_effect_static persist_effect_getItem_other)

lemma hydrate_effect_parsed:
  "window_defined b \<Longrightarrow> getItem b key = Inr (Some raw) \<Longrightarrow> JSON_parse P raw = Some v \<Longrightarrow>
   hydrate_effect P b key cur = v"
  by (simp add: hydrate_effect_def hydrate_try_def)

lemma hydrate_effect_kept:
  "getItem b key = Inr None \<or> getItem b key = Inl e \<or>
   (getItem b key = Inr (Some raw) \<and> JSON_parse P raw = None) \<Longrightarrow>
   hydrate_effect P b key cur = cur"
  by (auto simp: hydrate_effect_def hydrate_try_def)

lemma fold_hydrate_key:
  "distinct ks \<Longrightarrow>
   fold (hydrate_key P b) ks s k =
     (if k \<in> set ks then hydrate_effect P b (storage_key k) (s k) else s k)"
  by (induction ks arbitrary: s) (auto simp: hydrate_key_def)

lemma hydrate_apply: "hydrate P b s k = hydrate_effect P b (storage_key k) (s k)"
  by (simp add: hydrate_def fold_hydrate_key distinct_pref_keys set_pref_keys)

subsection \<open>Mounting and rendering\<close>

lemma mount_effects_pair:
  "mount_effects P x (s, b) =
     (s(x := hydrate_effect P b (storage_key x) (initialValue x)),
      persist_effect P b (storage_key x) (initialValue x))"
  by (simp add: mount_effects_def)

lemma fold_mount_effects_fst:
  "distinct ks \<Longrightarrow>
   fst (fold (mount_effects P) ks (s, b)) k =
     (if k \<in> set ks then hydrate_effect P b (storage_key k) (initialValue k) else s k)"
proof (induction ks arbitrary: s b)
  case Nil
  then show ?case by simp
next
  case (Cons x xs)
  let ?s = "s(x := hydrate_effect P b (storage_key x) (initialValue x))"
  let ?b = "persist_effect P b (storage_key x) (initialValue x)"
  from Cons.prems have dx: "distinct xs" and nx: "x \<notin> set xs" by simp_all
  have step: "fst (fold (mount_effects P) (x # xs) (s, b)) k =
      (if k \<in> set xs then hydrate_effect P ?b (storage_key k) (initialValue k) else ?s k)"
    using Cons.IH [OF dx, of ?s ?b] by (simp add: mount_effects_pair del: fun_upd_apply)
  show ?case
  proof (cases "k \<in> set xs")
    case True
    with nx have "k \<noteq> x" by auto
    then have "storage_key k \<noteq> storage_key x" by (simp add: storage_key_inj)
    then have "hydrate_effect P ?b (storage_key k) (initialValue k) =
        hydrate_effect P b (storage_key k) (initialValue k)"
      by (rule hydrate_effect_persist_other)
    with True step show ?thesis by simp
  next
    case False
    with step show ?thesis by simp
  qed
qed

lemma fst_fold_mount_effects:
  "fst (fold (mount_effects P) pref_keys (initialValue, b)) = hydrate P b initialValue"
  by (rule ext)
     (simp add: fold_mount_effects_fst hydrate_apply distinct_pref_keys set_pref_keys)

lemma render_initialValue: "render initialValue = Inr ()"
  by (simp add: render_def)

lemma mount_live:
  "render (hydrate P b initialValue) = Inr () \<Longrightarrow>
   mount P b =
     Inr (hydrate P b initialValue,
          rerender_effects P initialValue (hydrate P b initialValue)
            (snd (fold (mount_effects P) pref_keys (initialValue, b))))"
  by (simp add: mount_def render_initialValue Let_def fst_fold_mount_effects)

lemma mount_unmounted:
  "render (hydrate P b initialValue) = Inl e \<Longrightarrow>
   mount P b = Inl (e, snd (fold (mount_effects P) pref_keys (initialValue, b)))"
  by (simp add: mount_def render_initialValue Let_def fst_fold_mount_effects)

lemma get_mount:
  "render (hydrate P b initialValue) = Inr () \<Longrightarrow>
   \<not> isl (mount P b) \<and>
   get (projr (mount P b)) k = hydrate_effect P b (storage_key k) (initialValue k)"
  by (simp add: mount_live get_def hydrate_apply)

lemma fold_mount_effects_items:
  assumes win: "window_defined b" and wr: "\<And>key v. \<not> setItem_throws b key v"
  shows "distinct ks \<Longrightarrow>
   items (snd (fold (mount_effects P) ks (s, b))) (storage_key k) =
     (if k \<in> set ks then Some (JSON_stringify P (initialValue k))
      else items b (storage_key k))"
  using win wr
proof (induction ks arbitrary: s b)
  case Nil
  then show ?case by simp
next
  case (Cons x xs)
  let ?s = "s(x := hydrate_effect P b (storage_key x) (initialValue x))"
  let ?b = "persist_effect P b (storage_key x) (initialValue x)"
  from Cons.prems have dx: "distinct xs" and nx: "x \<notin> set xs" by simp_all
  have pb: "?b = b\<lparr>items := (items b)(storage_key x \<mapsto> JSON_stringify P (initialValue x))\<rparr>"
    using Cons.prems by (simp add: persist_effect_written)
  have w': "window_defined ?b" and t': "\<And>key v. \<not> setItem_throws ?b key v"
    using Cons.prems by (simp_all add: persist_effect_static)
  have "items (snd (fold (mount_effects P) (x # xs) (s, b))) (storage_key k) =
      (if k \<in> set xs then Some (JSON_stringify P (initialValue k))
       else items ?b (storage_key k))"
    using Cons.IH [OF dx w' t', of ?s] by (simp add: mount_effects_pair del: fun_upd_apply)
  with nx show ?case by (auto simp: pb storage_key_inj)
qed

lemma fold_rerender_single:
  assumes same: "\<And>j. j \<noteq> k \<Longrightarrow> new j = old j"
  shows "distinct ks \<Longrightarrow>
   fold (\<lambda>j b. if new j \<noteq> old j then persist_effect P b (storage_key j) (new j) else b) ks b =
     (if k \<in> set ks \<and> new k \<noteq> old k then persist_effect P b (storage_key k) (new k) else b)"
proof (induction ks arbitrary: b)
  case Nil
  then show ?case by simp
next
  case (Cons a ks)
  from Cons.prems have d: "distinct ks" and na: "a \<notin> set ks" by simp_all
  show ?case
  proof (cases "a = k")
    case True
    with na Cons.IH [OF d] show ?thesis by simp
  next
    case False
    then have "new a = old a" by (rule same)
    with False Cons.IH [OF d] show ?thesis by simp
  qed
qed

lemma rerender_effects_single:
  "rerender_effects P s (s(k := v)) b =
     (if v \<noteq> s k then persist_effect P b (storage_key k) v else b)"
proof -
  have "rerender_effects P s (s(k := v)) b =
      (if k \<in> set pref_keys \<and> (s(k := v)) k \<noteq> s k
       then persist_effect P b (storage_key k) ((s(k := v)) k) else b)"
    unfolding rerender_effects_def
    by (rule fold_rerender_single) (simp_all add: distinct_pref_keys)
  then show ?thesis by (simp add: set_pref_keys)
qed

lemma set_pref_eq:
  "set_pref P k v (s, b) =
     (s(k := v), if v \<noteq> s k then persist_effect P b (storage_key k) v else b)"
  by (simp add: set_pref_def setValue_def Let_def rerender_effects_single)

subsection \<open>Ranges, presets and projection\<close>

lemma spec_clamp_in_domain: "in_domain k v \<Longrightarrow> spec_clamp k v = v"
  by (cases k; cases v) (auto simp: spec_clamp_def)

lemma valid_snapshot_key: "valid_snapshot s \<Longrightarrow> in_domain k (s k)"
  using set_pref_keys [of k] by (simp add: valid_snapshot_def list_all_iff)

lemma in_domain_num:
  "domain_of k \<noteq> None \<Longrightarrow> in_domain k v \<Longrightarrow> \<exists>x. v = JNum x"
  by (cases k; cases v) simp_all

lemma presets_Large_print:
  "presets Large_print s =
     s(FontFamily := JStr ''system'', FontSize := JNum 22, LineHeight := JNum 1.9,
       LetterSpacing := JNum 0.01, WordSpacing := JNum 1, MaxWidthCh := JNum 58,
       ParaSpacingEm := JNum 1.1, Theme := JStr ''high-contrast'')"
  by (simp add: presets_def setValue_def)

lemma presets_InputText: "presets p s InputText = s InputText"
  by (cases p) (simp_all add: presets_def setValue_def)

lemma preset_of_name_Some: "name \<in> set preset_names \<longleftrightarrow> preset_of_name name \<noteq> None"
  by (simp add: preset_names_def)

lemma style_project:
  assumes "ToString (Number_toString P) (s LineHeight) \<noteq> []"
  shows "style (project P s r) =
    (style r)
      (''--reader-font'' \<mapsto>
         (if s FontFamily = JStr ''atkinson''
          then ''var(--font-atkinson), var(--font-sans)'' else ''var(--font-sans)''),
       ''--reader-font-size'' \<mapsto> ToString (Number_toString P) (s FontSize) @ ''px'',
       ''--reader-line-height'' \<mapsto> ToString (Number_toString P) (s LineHeight),
       ''--reader-letter-spacing'' \<mapsto> ToString (Number_toString P) (s LetterSpacing) @ ''em'',
       ''--reader-word-spacing'' \<mapsto> ToString (Number_toString P) (s WordSpacing) @ ''px'',
       ''--reader-max-width'' \<mapsto> ToString (Number_toString P) (s MaxWidthCh) @ ''ch'',
       ''--reader-paragraph-spacing'' \<mapsto> ToString (Number_toString P) (s ParaSpacingEm) @ ''em'')"
  using assms
  by (simp add: project_def style_effect_def style_calls_def setProperty_def theme_effect_def
      setAttribute_def)

lemma attributes_project:
  "attributes (project P s r) =
     (attributes r)(''data-theme'' \<mapsto> ToString (Number_toString P) (s Theme))"
  by (simp add: project_def style_effect_def style_calls_def setProperty_def theme_effect_def
      setAttribute_def)

subsection \<open>The concrete platform at the inputs used below\<close>

lemma platform_simps:
  "JSON_parse decimal_platform = json_parse"
  "JSON_stringify decimal_platform = json_stringify"
  "Number_toString decimal_platform = decimal_string"
  by (simp_all add: decimal_platform_def)

lemma browser_with_simps:
  "window_defined (browser_with kvs) = True"
  "items (browser_with kvs) = map_of kvs"
  "getItem_throws (browser_with kvs) key = False"
  "setItem_throws (browser_with kvs) key v = False"
  by (simp_all add: browser_with_def)

lemma getItem_browser_with: "getItem (browser_with kvs) key = Inr (map_of kvs key)"
  by (simp add: getItem_def browser_with_simps)

lemma show_nat_nonempty: "show_nat n \<noteq> []"
  by (subst show_nat.simps) simp

lemma decimal_string_nonempty: "decimal_string x \<noteq> []"
  by (simp add: decimal_string_def Let_def show_nat_nonempty)


lemma decimal_string_defaults:
  "decimal_string 18 = ''18''" "decimal_string 1.65 = ''1.65''" "decimal_string 0 = ''0''"
  "decimal_string 68 = ''68''" "decimal_string 0.75 = ''0.75''"
  "decimal_string (33 / 20) = ''1.65''" "decimal_string (3 / 4) = ''0.75''"
  by code_simp+

lemma json_parse_30: "json_parse ''30'' = Some (JNum 30)"
  by code_simp

lemma json_parse_1_8: "json_parse ''1.8'' = Some (JNum 1.8)"
  by code_simp

lemma json_parse_1000: "json_parse ''1000'' = Some (JNum 1000)"
  by code_simp

lemma json_parse_big: "json_parse [CHR 0x22, CHR ''b'', CHR ''i'', CHR ''g'', CHR 0x22] = Some (JStr ''big'')"
  by code_simp

lemma json_parse_corrupt: "json_parse ''{18'' = None"
  by code_simp

lemma valid_initialValue: "valid_snapshot initialValue"
  by (simp add: valid_snapshot_def pref_keys_def)


subsection \<open>A record of the wrong type unmounts the page\<close>

text \<open>
  A stored line height that is a string, or a stored text that is a number, parses
  and hydrates; the render that follows throws, and the page is unmounted. The
  storage then holds the initial line height, which the first persist effect wrote
  over the record.
\<close>

lemma mount_string_lineHeight:
  "mount decimal_platform
     (browser_with [(''readable:lineHeight'', [CHR 0x22, CHR ''b'', CHR ''i'', CHR ''g'', CHR 0x22])])
   = Inl (TypeError, snd (fold (mount_effects decimal_platform) pref_keys
       (initialValue,
        browser_with [(''readable:lineHeight'', [CHR 0x22, CHR ''b'', CHR ''i'', CHR ''g'', CHR 0x22])])))"
  by (rule mount_unmounted)
     (simp add: render_def hydrate_apply hydrate_effect_def hydrate_try_def
       getItem_browser_with browser_with_simps platform_simps json_parse_big)

lemma mount_string_lineHeight_storage:
  "items (snd (projl (mount decimal_platform
     (browser_with [(''readable:lineHeight'', [CHR 0x22, CHR ''b'', CHR ''i'', CHR ''g'', CHR 0x22])]))))
     ''readable:lineHeight'' = Some ''1.65''"
proof -
  let ?b = "browser_with [(''readable:lineHeight'', [CHR 0x22, CHR ''b'', CHR ''i'', CHR ''g'', CHR 0x22])]"
  have "items (snd (fold (mount_effects decimal_platform) pref_keys (initialValue, ?b)))
      (storage_key LineHeight) = Some (JSON_stringify decimal_platform (initialValue LineHeight))"
    using fold_mount_effects_items [of ?b pref_keys decimal_platform initialValue LineHeight]
    by (simp add: browser_with_simps distinct_pref_keys set_pref_keys)
  then show ?thesis
    by (simp add: mount_string_lineHeight platform_simps decimal_string_defaults)
qed

lemma mount_number_text:
  "mount decimal_platform (browser_with [(''readable:text'', ''30'')])
   = Inl (TypeError, snd (fold (mount_effects decimal_platform) pref_keys
       (initialValue, browser_with [(''readable:text'', ''30'')])))"
  by (rule mount_unmounted)
     (simp add: render_def hydrate_apply hydrate_effect_def hydrate_try_def
       getItem_browser_with browser_with_simps platform_simps json_parse_30)

section \<open>Writing a preference\<close>

text \<open>
  C1, as the code has it. After \<open>set_pref k v\<close> the value read back for \<open>k\<close> is \<open>v\<close>
  itself, whatever \<open>v\<close> is: the setter stores its argument and nothing clamps it. For
  a value inside the range of its key this is also the clamped value.
\<close>

theorem set_pref_verbatim:
  "get (set_pref P k v w) k = v \<and>
   (in_domain k v \<longrightarrow> get (set_pref P k v w) k = spec_clamp k v)"
  by (simp add: get_def set_pref_def setValue_def Let_def spec_clamp_in_domain)

theorem set_pref_verbatim_witness:
  "in_domain FontSize (JNum 20) \<and>
   get (set_pref decimal_platform FontSize (JNum 20) (initialValue, browser_with [])) FontSize
     = spec_clamp FontSize (JNum 20)"
proof -
  have d: "in_domain FontSize (JNum 20)" by simp
  with set_pref_verbatim [of decimal_platform FontSize "JNum 20" "(initialValue, browser_with [])"]
  show ?thesis by blast
qed

text \<open>
  A font size of 30 is above the range 14 to 26 of its control; written through the
  setter it is read back as 30, not as the bound 26.
\<close>

theorem set_pref_not_clamped:
  "get (set_pref decimal_platform FontSize (JNum 30) (initialValue, browser_with [])) FontSize
     \<noteq> spec_clamp FontSize (JNum 30)"
  by (simp add: get_def set_pref_def setValue_def Let_def spec_clamp_def)

section \<open>Hydration\<close>

text \<open>
  C2, as the code has it. When the record of a key is read and parsed, hydration of
  that key puts the parsed value into the snapshot as it is, without clamping, and
  changes no other key.
\<close>

theorem hydrate_key_verbatim:
  assumes "window_defined b"
    and "getItem b (storage_key k) = Inr (Some raw)"
    and "JSON_parse P raw = Some v"
  shows "hydrate_key P b k s = s(k := v) \<and> hydrate P b s k = v"
  using assms by (simp add: hydrate_key_def hydrate_apply hydrate_effect_parsed)

theorem hydrate_key_verbatim_witness:
  "window_defined (browser_with [(''readable:fontSize'', ''30'')]) \<and>
   getItem (browser_with [(''readable:fontSize'', ''30'')]) (storage_key FontSize)
     = Inr (Some ''30'') \<and>
   JSON_parse decimal_platform ''30'' = Some (JNum 30) \<and>
   hydrate_key decimal_platform (browser_with [(''readable:fontSize'', ''30'')]) FontSize
     initialValue = initialValue(FontSize := JNum 30) \<and>
   hydrate decimal_platform (browser_with [(''readable:fontSize'', ''30'')]) initialValue FontSize
     = JNum 30"
proof -
  let ?b = "browser_with [(''readable:fontSize'', ''30'')]"
  have 1: "window_defined ?b" by (simp add: browser_with_simps)
  have 2: "getItem ?b (storage_key FontSize) = Inr (Some ''30'')"
    by (simp add: getItem_browser_with)
  have 3: "JSON_parse decimal_platform ''30'' = Some (JNum 30)"
    by (simp add: platform_simps json_parse_30)
  from hydrate_key_verbatim [OF 1 2 3, of initialValue] 1 2 3 show ?thesis by simp
qed

text \<open>
  A stored font size of 30 parses, and hydration leaves 30 in the snapshot where
  clamping would give 26.
\<close>

theorem hydrate_not_clamped:
  "JSON_parse decimal_platform ''30'' = Some (JNum 30) \<and>
   hydrate decimal_platform (browser_with [(''readable:fontSize'', ''30'')]) initialValue FontSize
     = JNum 30 \<and>
   spec_clamp FontSize (JNum 30) = JNum 26"
  by (simp add: hydrate_apply hydrate_effect_def hydrate_try_def getItem_browser_with
      browser_with_simps platform_simps json_parse_30 spec_clamp_def)

text \<open>
  C4. Hydration fails key by key. A key whose record is absent, cannot be read or does
  not parse keeps the value it had, and every key whose record is read and parsed
  still takes its persisted value.
\<close>

theorem hydrate_isolated:
  assumes bad: "getItem b (storage_key k) = Inr None \<or> getItem b (storage_key k) = Inl e \<or>
      (getItem b (storage_key k) = Inr (Some raw) \<and> JSON_parse P raw = None)"
    and win: "window_defined b"
  shows "hydrate P b s k = s k \<and>
     (\<forall>j raw' v'. getItem b (storage_key j) = Inr (Some raw') \<and> JSON_parse P raw' = Some v'
        \<longrightarrow> hydrate P b s j = v')"
  using hydrate_effect_kept [OF bad] win
  by (simp add: hydrate_apply hydrate_effect_parsed)

theorem hydrate_isolated_witness:
  "getItem (browser_with [(''readable:fontSize'', ''{18''), (''readable:lineHeight'', ''1.8'')])
     (storage_key FontSize) = Inr (Some ''{18'') \<and>
   JSON_parse decimal_platform ''{18'' = None \<and>
   JSON_parse decimal_platform ''1.8'' = Some (JNum 1.8) \<and>
   hydrate decimal_platform
     (browser_with [(''readable:fontSize'', ''{18''), (''readable:lineHeight'', ''1.8'')])
     initialValue FontSize = JNum 18 \<and>
   hydrate decimal_platform
     (browser_with [(''readable:fontSize'', ''{18''), (''readable:lineHeight'', ''1.8'')])
     initialValue LineHeight = JNum 1.8"
proof -
  let ?b = "browser_with [(''readable:fontSize'', ''{18''), (''readable:lineHeight'', ''1.8'')]"
  have bad: "getItem ?b (storage_key FontSize) = Inr None \<or>
      getItem ?b (storage_key FontSize) = Inl SyntaxError \<or>
      (getItem ?b (storage_key FontSize) = Inr (Some ''{18'') \<and>
       JSON_parse decimal_platform ''{18'' = None)"
    by (simp add: getItem_browser_with platform_simps json_parse_corrupt)
  have win: "window_defined ?b" by (simp add: browser_with_simps)
  have good: "getItem ?b (storage_key LineHeight) = Inr (Some ''1.8'') \<and>
      JSON_parse decimal_platform ''1.8'' = Some (JNum 1.8)"
    by (simp add: getItem_browser_with platform_simps json_parse_1_8)
  note h = hydrate_isolated [OF bad win, of initialValue]
  from h have a: "hydrate decimal_platform ?b initialValue FontSize = JNum 18" by simp
  from h good have "hydrate decimal_platform ?b initialValue LineHeight = JNum 1.8"
    by blast
  with a good show ?thesis
    by (simp add: getItem_browser_with platform_simps json_parse_corrupt)
qed

text \<open>
  C10. The hydrate effect throws, and so keeps the value of the key, only when the
  storage cannot be read or the record is not JSON. Whatever \<^verbatim>\<open>JSON.parse\<close> returns
  replaces the value of the key in the snapshot: nothing checks its type or its range.
\<close>

theorem hydrate_unchecked:
  assumes "window_defined b"
    and "getItem b (storage_key k) = Inr (Some raw)"
    and "JSON_parse P raw = Some v"
  shows "hydrate_try P b (storage_key k) cur = Inr v \<and>
         hydrate_effect P b (storage_key k) cur = v \<and>
         hydrate P b s k = v \<and>
         (\<forall>key e. hydrate_try P b key cur = Inl e \<longrightarrow>
            getItem b key = Inl e \<or>
            (e = SyntaxError \<and> (\<exists>r. getItem b key = Inr (Some r) \<and> JSON_parse P r = None)))"
proof -
  have only: "getItem b key = Inl e \<or>
      (e = SyntaxError \<and> (\<exists>r. getItem b key = Inr (Some r) \<and> JSON_parse P r = None))"
    if "hydrate_try P b key cur = Inl e" for key e
    using that by (auto simp: hydrate_try_def split: if_splits sum.splits option.splits)
  from assms have "hydrate_try P b (storage_key k) cur = Inr v"
    by (simp add: hydrate_try_def)
  with assms only show ?thesis
    by (simp add: hydrate_apply hydrate_effect_parsed)
qed

theorem hydrate_unchecked_witness:
  "hydrate decimal_platform
     (browser_with [(''readable:fontSize'', [CHR 0x22, CHR ''b'', CHR ''i'', CHR ''g'', CHR 0x22])])
     initialValue FontSize = JStr ''big'' \<and>
   hydrate decimal_platform (browser_with [(''readable:maxWidth'', ''1000'')])
     initialValue MaxWidthCh = JNum 1000 \<and>
   \<not> in_domain FontSize (JStr ''big'') \<and> \<not> in_domain MaxWidthCh (JNum 1000)"
proof -
  let ?q = "[CHR 0x22, CHR ''b'', CHR ''i'', CHR ''g'', CHR 0x22]"
  let ?b1 = "browser_with [(''readable:fontSize'', ?q)]"
  let ?b2 = "browser_with [(''readable:maxWidth'', ''1000'')]"
  have w1: "window_defined ?b1" and w2: "window_defined ?b2"
    by (simp_all add: browser_with_simps)
  have g1: "getItem ?b1 (storage_key FontSize) = Inr (Some ?q)"
    and g2: "getItem ?b2 (storage_key MaxWidthCh) = Inr (Some ''1000'')"
    by (simp_all add: getItem_browser_with)
  have p1: "JSON_parse decimal_platform ?q = Some (JStr ''big'')"
    and p2: "JSON_parse decimal_platform ''1000'' = Some (JNum 1000)"
    by (simp_all add: platform_simps json_parse_big json_parse_1000)
  from hydrate_unchecked [OF w1 g1 p1, where s = initialValue]
    hydrate_unchecked [OF w2 g2 p2, where s = initialValue]
  show ?thesis by simp
qed

text \<open>
  C9. Mounted on a storage without records, the page is live and shows the initial
  values: font size 18, line height 1.65, line length 68, the light theme.
\<close>

theorem fresh_store_defaults:
  assumes "items b = Map.empty"
  shows "\<not> isl (mount P b) \<and>
         get (projr (mount P b)) FontSize = JNum 18 \<and>
         get (projr (mount P b)) LineHeight = JNum 1.65 \<and>
         get (projr (mount P b)) MaxWidthCh = JNum 68 \<and>
         get (projr (mount P b)) Theme = JStr ''light'' \<and>
         get (projr (mount P b)) k = initialValue k"
proof -
  have kept: "hydrate_effect P b key cur = cur" for key cur
    using assms by (simp add: hydrate_effect_def hydrate_try_def getItem_def)
  then have "hydrate P b initialValue = initialValue"
    by (intro ext) (simp add: hydrate_apply)
  then have "render (hydrate P b initialValue) = Inr ()"
    by (simp add: render_initialValue)
  from get_mount [OF this] kept show ?thesis by simp
qed

theorem fresh_store_defaults_witness:
  "items (browser_with []) = Map.empty \<and>
   \<not> isl (mount decimal_platform (browser_with [])) \<and>
   get (projr (mount decimal_platform (browser_with []))) FontSize = JNum 18 \<and>
   get (projr (mount decimal_platform (browser_with []))) LineHeight = JNum 1.65 \<and>
   get (projr (mount decimal_platform (browser_with []))) MaxWidthCh = JNum 68 \<and>
   get (projr (mount decimal_platform (browser_with []))) Theme = JStr ''light''"
proof -
  have e: "items (browser_with []) = Map.empty" by (simp add: browser_with_simps)
  from fresh_store_defaults [OF e, of decimal_platform] e show ?thesis by simp
qed

section \<open>Persisting\<close>

text \<open>
  C5. When the write of the persist effect throws, the effect leaves the storage as it
  was and returns normally; the setter that caused it has stored its value in memory,
  and nothing else changes.
\<close>

theorem persist_failure_swallowed:
  assumes "persist_try P b (storage_key k) v = Inl e"
  shows "persist_effect P b (storage_key k) v = b \<and>
         set_pref P k v (s, b) = (s(k := v), b) \<and>
         get (set_pref P k v (s, b)) k = v"
  using assms by (simp add: set_pref_eq persist_effect_failed get_def)

theorem persist_failure_swallowed_witness:
  "persist_try decimal_platform (quota_exceeded (browser_with [])) (storage_key FontSize) (JNum 30)
     = Inl QuotaExceededError \<and>
   set_pref decimal_platform FontSize (JNum 30) (initialValue, quota_exceeded (browser_with []))
     = (initialValue(FontSize := JNum 30), quota_exceeded (browser_with [])) \<and>
   get (set_pref decimal_platform FontSize (JNum 30)
     (initialValue, quota_exceeded (browser_with []))) FontSize = JNum 30"
proof -
  have f: "persist_try decimal_platform (quota_exceeded (browser_with [])) (storage_key FontSize)
      (JNum 30) = Inl QuotaExceededError"
    by (simp add: persist_try_def setItem_def quota_exceeded_def browser_with_simps)
  from persist_failure_swallowed [OF f, of initialValue] f show ?thesis by blast
qed

section \<open>Restart\<close>




section \<open>Presets and projection\<close>

text \<open>
  C6. The Large print preset leaves font size 22, line height 1.9 and the
  high-contrast theme in the snapshot, and the pasted text as it was; no preset
  touches the pasted text. The button named Large print runs this preset.
\<close>

theorem large_print_preset:
  "get (apply_preset P Large_print w) FontSize = JNum 22 \<and>
   get (apply_preset P Large_print w) LineHeight = JNum 1.9 \<and>
   get (apply_preset P Large_print w) Theme = JStr ''high-contrast'' \<and>
   get (apply_preset P Large_print w) InputText = get w InputText \<and>
   get (apply_preset P p w) InputText = get w InputText \<and>
   apply_name P ''Large print'' w = Inr (apply_preset P Large_print w)"
  by (simp add: get_def apply_preset_def Let_def presets_Large_print presets_InputText
      apply_name_def)

text \<open>
  C7, as the code has it. The call \<^verbatim>\<open>presets[name]()\<close> returns normally for each of
  the four preset names. The code has no error of its own for an unknown name: the
  type \<^verbatim>\<open>Preset\<close> keeps other names out, and at run time a name that is neither a
  preset nor a member inherited from \<^verbatim>\<open>Object.prototype\<close> ends in the TypeError of
  calling \<^verbatim>\<open>undefined\<close>.
\<close>

theorem apply_name_outcome:
  "(name \<in> set preset_names \<longrightarrow> \<not> isl (apply_name P name w)) \<and>
   (name \<notin> set preset_names \<and> Object_prototype_call name = None \<longrightarrow>
      apply_name P name w = Inl TypeError)"
  by (auto simp: preset_of_name_Some apply_name_def split: option.splits)

theorem apply_name_outcome_witness:
  "''Reader'' \<in> set preset_names \<and>
   \<not> isl (apply_name decimal_platform ''Reader'' (initialValue, browser_with [])) \<and>
   ''Sepia'' \<notin> set preset_names \<and> Object_prototype_call ''Sepia'' = None \<and>
   apply_name decimal_platform ''Sepia'' (initialValue, browser_with []) = Inl TypeError"
proof -
  have a: "''Reader'' \<in> set preset_names" by (simp add: preset_names_def)
  have b: "''Sepia'' \<notin> set preset_names \<and> Object_prototype_call ''Sepia'' = None"
    by (simp add: preset_names_def Object_prototype_call_def)
  from apply_name_outcome [of "''Reader''" decimal_platform "(initialValue, browser_with [])"]
    apply_name_outcome [of "''Sepia''" decimal_platform "(initialValue, browser_with [])"] a b
  show ?thesis by blast
qed

text \<open>
  The name toString is not a preset, yet the call returns normally and changes
  nothing: the lookup finds the method that every object inherits.
\<close>

theorem apply_name_inherited_member:
  "''toString'' \<notin> set preset_names \<and>
   apply_name decimal_platform ''toString'' (initialValue, browser_with [])
     = Inr (initialValue, browser_with [])"
  by (simp add: preset_names_def apply_name_def Object_prototype_call_def)

text \<open>
  C8. For a snapshot whose keys hold values of their declared types, on a platform
  whose numbers never print as the empty string, the projection writes all seven
  custom properties, each a function of the snapshot alone: the font stack chosen by
  the font family, the font size with px, the line height as a bare number, the
  letter spacing with em, the word spacing with px, the line length with ch, the
  paragraph spacing with em. It writes no other style property. The theme goes to the
  attribute data-theme of the root element, and to no style property.
\<close>

theorem project_variables:
  assumes valid: "valid_snapshot s"
    and nonempty: "\<forall>x. Number_toString P x \<noteq> []"
  shows
   "style (project P s r) ''--reader-font'' =
      Some (if s FontFamily = JStr ''atkinson''
            then ''var(--font-atkinson), var(--font-sans)'' else ''var(--font-sans)'') \<and>
    style (project P s r) ''--reader-font-size'' =
      Some (ToString (Number_toString P) (s FontSize) @ ''px'') \<and>
    style (project P s r) ''--reader-line-height'' =
      Some (ToString (Number_toString P) (s LineHeight)) \<and>
    style (project P s r) ''--reader-letter-spacing'' =
      Some (ToString (Number_toString P) (s LetterSpacing) @ ''em'') \<and>
    style (project P s r) ''--reader-word-spacing'' =
      Some (ToString (Number_toString P) (s WordSpacing) @ ''px'') \<and>
    style (project P s r) ''--reader-max-width'' =
      Some (ToString (Number_toString P) (s MaxWidthCh) @ ''ch'') \<and>
    style (project P s r) ''--reader-paragraph-spacing'' =
      Some (ToString (Number_toString P) (s ParaSpacingEm) @ ''em'') \<and>
    (\<forall>n. n \<notin> set style_names \<longrightarrow> style (project P s r) n = style r n) \<and>
    attributes (project P s r) ''data-theme'' = Some (ToString (Number_toString P) (s Theme)) \<and>
    JStr (ToString (Number_toString P) (s Theme)) = s Theme \<and>
    (\<forall>n. n \<noteq> ''data-theme'' \<longrightarrow> attributes (project P s r) n = attributes r n)"
proof -
  from valid have "in_domain LineHeight (s LineHeight)" by (rule valid_snapshot_key)
  then obtain x where "s LineHeight = JNum x"
    using in_domain_num [of LineHeight "s LineHeight"] by auto
  with nonempty have lh: "ToString (Number_toString P) (s LineHeight) \<noteq> []" by simp
  from valid have "in_domain Theme (s Theme)" by (rule valid_snapshot_key)
  then have th: "JStr (ToString (Number_toString P) (s Theme)) = s Theme" by auto
  from lh show ?thesis
    by (simp add: style_project attributes_project th style_names_def)
qed

theorem project_variables_witness:
  "valid_snapshot initialValue \<and>
   style (project decimal_platform initialValue empty_root) ''--reader-font'' =
     Some ''var(--font-sans)'' \<and>
   style (project decimal_platform initialValue empty_root) ''--reader-font-size'' =
     Some ''18px'' \<and>
   style (project decimal_platform initialValue empty_root) ''--reader-line-height'' =
     Some ''1.65'' \<and>
   style (project decimal_platform initialValue empty_root) ''--reader-letter-spacing'' =
     Some ''0em'' \<and>
   style (project decimal_platform initialValue empty_root) ''--reader-word-spacing'' =
     Some ''0px'' \<and>
   style (project decimal_platform initialValue empty_root) ''--reader-max-width'' =
     Some ''68ch'' \<and>
   style (project decimal_platform initialValue empty_root) ''--reader-paragraph-spacing'' =
     Some ''0.75em'' \<and>
   style (project decimal_platform initialValue empty_root) ''data-theme'' = None \<and>
   attributes (project decimal_platform initialValue empty_root) ''data-theme'' =
     Some ''light''"
proof -
  have ne: "\<forall>x. Number_toString decimal_platform x \<noteq> []"
    by (simp add: platform_simps decimal_string_nonempty)
  have e: "style empty_root ''data-theme'' = None" "''data-theme'' \<notin> set style_names"
    by (simp_all add: empty_root_def style_names_def)
  from project_variables [OF valid_initialValue ne, of empty_root] e
  show ?thesis
    by (simp add: valid_initialValue platform_simps decimal_string_defaults)
qed

end
